theory Spec2Isabelle
  imports Main "HOL-Library.Word" "HOL-Library.Sublist"
begin

section \<open>JavaScript strings\<close>

text \<open>
  A JavaScript string is a sequence of UTF-16 code units. The user-facing messages of
  \<^verbatim>\<open>App.tsx\<close> are Vietnamese and \<^verbatim>\<open>String.prototype.trim\<close> removes code units beyond
  ASCII, so strings are lists of 16-bit words; \<open>js\<close> embeds an ASCII literal.
\<close>

type_synonym js_string = "16 word list"

definition js :: "string \<Rightarrow> js_string" where
  "js s = map (\<lambda>c. of_nat (of_char c)) s"

text \<open>
  \<^verbatim>\<open>s.trim()\<close> removes leading and trailing WhiteSpace and LineTerminator code points
  (ECMAScript: TAB, VT, FF, SP, NBSP, ZWNBSP, the Unicode space separators, LF, CR, LS, PS).
\<close>

definition isWhiteSpace :: "16 word \<Rightarrow> bool" where
  "isWhiteSpace c \<longleftrightarrow>
     c = 0x0009 \<or> c = 0x000A \<or> c = 0x000B \<or> c = 0x000C \<or> c = 0x000D \<or> c = 0x0020 \<or>
     c = 0x00A0 \<or> c = 0x1680 \<or> (0x2000 \<le> c \<and> c \<le> 0x200A) \<or> c = 0x2028 \<or>
     c = 0x2029 \<or> c = 0x202F \<or> c = 0x205F \<or> c = 0x3000 \<or> c = 0xFEFF"

definition trim :: "js_string \<Rightarrow> js_string" where
  "trim s = rev (dropWhile isWhiteSpace (rev (dropWhile isWhiteSpace s)))"

text \<open>\<^verbatim>\<open>s.includes(t)\<close>: \<open>t\<close> occurs in \<open>s\<close> as a contiguous run.\<close>

fun str_includes :: "js_string \<Rightarrow> js_string \<Rightarrow> bool" where
  "str_includes [] t = (t = [])"
| "str_includes (c # cs) t = (prefix t (c # cs) \<or> str_includes cs t)"

text \<open>
  \<^verbatim>\<open>s.split(sep)\<close> for a one-unit separator: the pieces between the occurrences of the
  separator, never an empty array. \<^verbatim>\<open>xs[i]\<close> on an array is \<^verbatim>\<open>undefined\<close> out of range.
\<close>

fun str_split :: "16 word \<Rightarrow> js_string \<Rightarrow> js_string list" where
  "str_split sep [] = [[]]"
| "str_split sep (c # cs) =
     (let r = str_split sep cs in if c = sep then [] # r else (c # hd r) # tl r)"

definition array_index :: "'a list \<Rightarrow> nat \<Rightarrow> 'a option" where
  "array_index xs i = (if i < length xs then Some (xs ! i) else None)"

text \<open>A template literal \<^verbatim>\<open>${v}\<close> prints an absent value as the text \<^verbatim>\<open>undefined\<close>.\<close>

definition interpolate :: "js_string option \<Rightarrow> js_string" where
  "interpolate v = (case v of None \<Rightarrow> js ''undefined'' | Some s \<Rightarrow> s)"

section \<open>The data model\<close>

text \<open>\<^verbatim>\<open>types.ts\<close>.\<close>

datatype AspectRatio = Ratio_1_1 | Ratio_9_16 | Ratio_16_9

definition aspectRatio_string :: "AspectRatio \<Rightarrow> js_string" where
  "aspectRatio_string r =
     (case r of Ratio_1_1 \<Rightarrow> js ''1:1'' | Ratio_9_16 \<Rightarrow> js ''9:16'' | Ratio_16_9 \<Rightarrow> js ''16:9'')"

datatype GenerationMode = TEXT_TO_IMAGE | IMAGE_TO_IMAGE

record GeneratedImage =
  img_id :: js_string
  img_url :: js_string
  img_prompt :: js_string
  img_aspectRatio :: AspectRatio
  img_timestamp :: int

record LoadingState =
  isLoading :: bool
  message :: js_string

text \<open>A browser \<^verbatim>\<open>File\<close>: its name and its \<^verbatim>\<open>type\<close> (the MIME type).\<close>

record File =
  file_name :: js_string
  file_type :: js_string

record UploadedImage =
  image_file :: File
  previewUrl :: js_string
  base64 :: js_string
  mimeType :: js_string

text \<open>
  The shapes of the SDK that \<^verbatim>\<open>geminiService.ts\<close> builds and reads. Every field the code
  tests for presence is optional: a reply may lack \<^verbatim>\<open>candidates\<close>, a candidate its
  \<^verbatim>\<open>content\<close>, a content its \<^verbatim>\<open>parts\<close>, a part its \<^verbatim>\<open>inlineData\<close>, and inline data
  its \<^verbatim>\<open>data\<close>.
\<close>

record Blob =
  blob_mimeType :: "js_string option"
  blob_data :: "js_string option"

record Part =
  inlineData :: "Blob option"
  part_text :: "js_string option"

record Content =
  parts :: "Part list option"

record Candidate =
  content :: "Content option"

record Response =
  candidates :: "Candidate list option"

text \<open>
  What the \<^verbatim>\<open>message\<close> property of a thrown object holds: \<open>Falsy\<close> is an absent
  property, null or another falsy value that is not a string; \<open>Text m\<close> is the string
  \<open>m\<close>; \<open>NonString r\<close> is a truthy value that is not a string, where \<open>r\<close> is \<open>None\<close>
  when the value has no callable \<^verbatim>\<open>includes\<close> (a number, a plain object) and \<open>Some b\<close>
  when it has one (an array) and \<^verbatim>\<open>includes("SAFETY")\<close> answers \<open>b\<close>.
\<close>

datatype js_message = Falsy | Text js_string | NonString "bool option"

text \<open>
  What a call throws. \<open>Error m\<close> is \<^verbatim>\<open>new Error(m)\<close>. \<open>TypeError d\<close> is the runtime's
  error for an operation on a value that does not support it; its message text belongs
  to the engine. \<open>Nullish\<close> is \<^verbatim>\<open>undefined\<close> or \<^verbatim>\<open>null\<close>, which a promise may be
  rejected with. \<open>Rejection v\<close> is any other value the remote call rejects with, \<open>v\<close>
  what its \<^verbatim>\<open>message\<close> property holds.
\<close>

datatype deref = ReadPropertyOfUndefined js_string | NotIterable | NotAFunction js_string

datatype thrown = Error js_string | TypeError deref | Nullish | Rejection js_message

text \<open>
  The argument of \<^verbatim>\<open>ai.models.generateContent\<close>: \<^verbatim>\<open>model\<close>, \<^verbatim>\<open>contents.parts\<close> and
  \<^verbatim>\<open>config.imageConfig.aspectRatio\<close>.
\<close>

record Request =
  model :: js_string
  contents_parts :: "Part list"
  config_imageConfig_aspectRatio :: AspectRatio

text \<open>
  What a function does to the world outside the React state, in the order it does it:
  calls of the remote capability, \<^verbatim>\<open>console.error\<close> (with its label, if it has one),
  the creation and release of object URLs, and the rejection of a handler's own promise,
  which nothing catches.
\<close>

datatype effect =
    GenerateContent Request
  | ConsoleError "js_string option" thrown
  | CreateObjectURL File
  | RevokeObjectURL js_string
  | UnhandledRejection thrown

text \<open>
  What the platform answers: the remote capability's reply to a request (or what it
  rejects with), the messages the engine gives its type errors, \<^verbatim>\<open>crypto.randomUUID()\<close>,
  \<^verbatim>\<open>Date.now()\<close>, the outcome of \<^verbatim>\<open>FileReader.readAsDataURL\<close> and the URL that
  \<^verbatim>\<open>URL.createObjectURL\<close> returns.
\<close>

record env =
  generateContent :: "Request \<Rightarrow> thrown + Response"
  typeErrorMessage :: "deref \<Rightarrow> js_string"
  randomUUID :: js_string
  now :: int
  readAsDataURL :: "File \<Rightarrow> thrown + js_string"
  createObjectURL :: "File \<Rightarrow> js_string"

section \<open>geminiService.ts\<close>

definition MODEL_NAME :: js_string where
  "MODEL_NAME = js ''gemini-2.5-flash-image''"

text \<open>The loop \<^verbatim>\<open>for (const part of parts)\<close>: the first part with \<^verbatim>\<open>inlineData\<close> returns.\<close>

fun scan_parts :: "Part list \<Rightarrow> thrown + js_string" where
  "scan_parts [] = Inl (Error (js ''No image data found in the response.''))"
| "scan_parts (part # rest) =
     (case inlineData part of
        Some b \<Rightarrow> Inr (js ''data:image/png;base64,'' @ interpolate (blob_data b))
      | None \<Rightarrow> scan_parts rest)"

definition extractImageFromResponse :: "Response \<Rightarrow> thrown + js_string" where
  "extractImageFromResponse response =
     (case candidates response of
        None \<Rightarrow> Inl (Error (js ''No candidates returned from Gemini.''))
      | Some [] \<Rightarrow> Inl (Error (js ''No candidates returned from Gemini.''))
      | Some (c # _) \<Rightarrow>
          (case content c of
             None \<Rightarrow> Inl (TypeError (ReadPropertyOfUndefined (js ''parts'')))
           | Some ct \<Rightarrow>
               (case parts ct of
                  None \<Rightarrow> Inl (TypeError NotIterable)
                | Some ps \<Rightarrow> scan_parts ps)))"

text \<open>
  The two lines both generators share inside their \<^verbatim>\<open>try\<close>: await
  \<^verbatim>\<open>ai.models.generateContent\<close>, then return \<^verbatim>\<open>extractImageFromResponse(response)\<close>.
  A rejection of the remote call and a throw of the extractor both leave the block.
\<close>

definition generate_and_extract :: "env \<Rightarrow> Request \<Rightarrow> thrown + js_string" where
  "generate_and_extract e request =
     (case generateContent e request of
        Inl err \<Rightarrow> Inl err
      | Inr response \<Rightarrow> extractImageFromResponse response)"

text \<open>
  Both generators build the request, await the remote capability and extract the image;
  whatever is thrown is logged and thrown again. The result is the list of effects and
  the outcome of the promise.
\<close>

definition generateImageFromText ::
  "env \<Rightarrow> js_string \<Rightarrow> AspectRatio \<Rightarrow> effect list \<times> (thrown + js_string)" where
  "generateImageFromText e prompt aspectRatio =
     (let request = \<lparr>model = MODEL_NAME,
                      contents_parts = [\<lparr>inlineData = None, part_text = Some prompt\<rparr>],
                      config_imageConfig_aspectRatio = aspectRatio\<rparr>;
          outcome = generate_and_extract e request
      in case outcome of
           Inr url \<Rightarrow> ([GenerateContent request], Inr url)
         | Inl err \<Rightarrow>
             ([GenerateContent request,
               ConsoleError (Some (js ''Error generating image from text:'')) err],
              Inl err))"

definition generateImageFromImage ::
  "env \<Rightarrow> UploadedImage \<Rightarrow> js_string \<Rightarrow> AspectRatio \<Rightarrow> effect list \<times> (thrown + js_string)" where
  "generateImageFromImage e sourceImage prompt aspectRatio =
     (let base64Data = array_index (str_split 0x2C (base64 sourceImage)) 1;
          request = \<lparr>model = MODEL_NAME,
                      contents_parts =
                        [\<lparr>inlineData = Some \<lparr>blob_mimeType = Some (mimeType sourceImage),
                                             blob_data = base64Data\<rparr>,
                          part_text = None\<rparr>,
                         \<lparr>inlineData = None, part_text = Some prompt\<rparr>],
                      config_imageConfig_aspectRatio = aspectRatio\<rparr>;
          outcome = generate_and_extract e request
      in case outcome of
           Inr url \<Rightarrow> ([GenerateContent request], Inr url)
         | Inl err \<Rightarrow>
             ([GenerateContent request,
               ConsoleError (Some (js ''Error generating image from image:'')) err],
              Inl err))"

text \<open>\<^verbatim>\<open>fileToBase64\<close> resolves with the reader's result or rejects with its error.\<close>

definition fileToBase64 :: "env \<Rightarrow> File \<Rightarrow> thrown + js_string" where
  "fileToBase64 e f = readAsDataURL e f"

section \<open>App.tsx\<close>

text \<open>
  The state of the component: its seven \<^verbatim>\<open>useState\<close> variables, and the value of the
  file input behind \<^verbatim>\<open>fileInputRef\<close> (\<open>None\<close> while the input is not mounted and
  \<^verbatim>\<open>fileInputRef.current\<close> is null). A handler maps the state at its call to its effects
  and the state after it; no other event is interleaved with its \<^verbatim>\<open>await\<close>. When the
  \<^verbatim>\<open>catch\<close> block of \<^verbatim>\<open>handleGenerate\<close> itself throws, its \<^verbatim>\<open>finally\<close> block still
  runs and the handler's promise is rejected.
\<close>

record app_state =
  mode :: GenerationMode
  prompt :: js_string
  aspectRatio :: AspectRatio
  loading :: LoadingState
  uploadedImage :: "UploadedImage option"
  generatedImages :: "GeneratedImage list"
  error :: "js_string option"
  fileInput :: "js_string option"

text \<open>
  The user-facing messages, as the UTF-16 code units of the source's literals:
  \<^verbatim>\<open>Kh\u00f4ng th\u1ec3 x\u1eed l\u00fd \u1ea3nh. Vui l\u00f2ng th\u1eed \u1ea3nh kh\u00e1c.\<close>,
  \<^verbatim>\<open>Vui l\u00f2ng nh\u1eadp m\u00f4 t\u1ea3.\<close>,
  \<^verbatim>\<open>Vui l\u00f2ng t\u1ea3i \u1ea3nh l\u00ean \u0111\u1ec3 bi\u1ebfn \u0111\u1ed5i.\<close>,
  \<^verbatim>\<open>\u0110ang t\u1ea1o t\u00e1c ph\u1ea9m...\<close>,
  \<^verbatim>\<open>\u0110\u00e3 x\u1ea3y ra l\u1ed7i. Vui l\u00f2ng th\u1eed l\u1ea1i.\<close> and
  \<^verbatim>\<open>M\u00f4 t\u1ea3 b\u1ecb h\u1ec7 th\u1ed1ng an to\u00e0n ch\u1eb7n. Vui l\u00f2ng th\u1eed m\u00f4 t\u1ea3 kh\u00e1c.\<close>
\<close>

definition msg_file_unreadable :: js_string where
  "msg_file_unreadable =
     js ''Kh'' @ [0x00F4] @ js ''ng th'' @ [0x1EC3] @ js '' x'' @ [0x1EED] @ js '' l'' @ [0x00FD] @
     js '' '' @ [0x1EA3] @ js ''nh. Vui l'' @ [0x00F2] @ js ''ng th'' @ [0x1EED] @ js '' '' @
     [0x1EA3] @ js ''nh kh'' @ [0x00E1] @ js ''c.''"

definition msg_prompt_required :: js_string where
  "msg_prompt_required =
     js ''Vui l'' @ [0x00F2] @ js ''ng nh'' @ [0x1EAD] @ js ''p m'' @ [0x00F4] @ js '' t'' @
     [0x1EA3] @ js ''.''"

definition msg_image_required :: js_string where
  "msg_image_required =
     js ''Vui l'' @ [0x00F2] @ js ''ng t'' @ [0x1EA3] @ js ''i '' @ [0x1EA3] @ js ''nh l'' @
     [0x00EA] @ js ''n '' @ [0x0111] @ [0x1EC3] @ js '' bi'' @ [0x1EBF] @ js ''n '' @ [0x0111] @
     [0x1ED5] @ js ''i.''"

definition msg_creating :: js_string where
  "msg_creating =
     [0x0110] @ js ''ang t'' @ [0x1EA1] @ js ''o t'' @ [0x00E1] @ js ''c ph'' @ [0x1EA9] @
     js ''m...''"

definition msg_generic_failure :: js_string where
  "msg_generic_failure =
     [0x0110] @ [0x00E3] @ js '' x'' @ [0x1EA3] @ js ''y ra l'' @ [0x1ED7] @ js ''i. Vui l'' @
     [0x00F2] @ js ''ng th'' @ [0x1EED] @ js '' l'' @ [0x1EA1] @ js ''i.''"

definition msg_safety_blocked :: js_string where
  "msg_safety_blocked =
     js ''M'' @ [0x00F4] @ js '' t'' @ [0x1EA3] @ js '' b'' @ [0x1ECB] @ js '' h'' @ [0x1EC7] @
     js '' th'' @ [0x1ED1] @ js ''ng an to'' @ [0x00E0] @ js ''n ch'' @ [0x1EB7] @
     js ''n. Vui l'' @ [0x00F2] @ js ''ng th'' @ [0x1EED] @ js '' m'' @ [0x00F4] @ js '' t'' @
     [0x1EA3] @ js '' kh'' @ [0x00E1] @ js ''c.''"

definition switchMode :: "GenerationMode \<Rightarrow> app_state \<Rightarrow> app_state" where
  "switchMode newMode s = s\<lparr>mode := newMode, error := None\<rparr>"

text \<open>The textarea's \<^verbatim>\<open>onChange\<close>: \<^verbatim>\<open>setPrompt(e.target.value)\<close>.\<close>

definition textarea_onChange :: "js_string \<Rightarrow> app_state \<Rightarrow> app_state" where
  "textarea_onChange v s = s\<lparr>prompt := v\<rparr>"

text \<open>
  \<^verbatim>\<open>handleFileChange\<close>: \<open>files\<close> is \<^verbatim>\<open>event.target.files\<close>, null or a list. The object
  URL is created while the argument of \<^verbatim>\<open>setUploadedImage\<close> is built.
\<close>

definition handleFileChange ::
  "env \<Rightarrow> File list option \<Rightarrow> app_state \<Rightarrow> effect list \<times> app_state" where
  "handleFileChange e files s =
     (case files of
        Some (f # _) \<Rightarrow>
          (case fileToBase64 e f of
             Inr b64 \<Rightarrow>
               ([CreateObjectURL f],
                s\<lparr>uploadedImage := Some \<lparr>image_file = f, previewUrl = createObjectURL e f,
                                          base64 = b64, mimeType = file_type f\<rparr>,
                  error := None\<rparr>)
           | Inl _ \<Rightarrow> ([], s\<lparr>error := Some msg_file_unreadable\<rparr>))
      | _ \<Rightarrow> ([], s))"

definition removeUploadedImage :: "app_state \<Rightarrow> effect list \<times> app_state" where
  "removeUploadedImage s =
     ((case uploadedImage s of
         Some u \<Rightarrow> [RevokeObjectURL (previewUrl u)]
       | None \<Rightarrow> []),
      s\<lparr>uploadedImage := None,
        fileInput := (case fileInput s of Some _ \<Rightarrow> Some [] | None \<Rightarrow> None)\<rparr>)"

text \<open>
  The \<^verbatim>\<open>catch\<close> of \<^verbatim>\<open>handleGenerate\<close> reads \<^verbatim>\<open>err.message\<close>: the text of an
  \<^verbatim>\<open>Error\<close>, the engine's text for a type error, what the property of a rejection
  holds. On \<^verbatim>\<open>undefined\<close> and \<^verbatim>\<open>null\<close> the read itself throws a type error.
\<close>

definition read_message :: "env \<Rightarrow> thrown \<Rightarrow> thrown + js_message" where
  "read_message e err =
     (case err of
        Error m \<Rightarrow> Inr (Text m)
      | TypeError d \<Rightarrow> Inr (Text (typeErrorMessage e d))
      | Nullish \<Rightarrow> Inl (TypeError (ReadPropertyOfUndefined (js ''message'')))
      | Rejection v \<Rightarrow> Inr v)"

text \<open>
  The condition \<^verbatim>\<open>err.message && err.message.includes("SAFETY")\<close>: its truth value, or
  what its evaluation throws. A falsy message, the empty string among them, ends the
  conjunction; a truthy message without a callable \<^verbatim>\<open>includes\<close> makes the call throw.
\<close>

definition mentions_safety :: "env \<Rightarrow> thrown \<Rightarrow> thrown + bool" where
  "mentions_safety e err =
     (case read_message e err of
        Inl t \<Rightarrow> Inl t
      | Inr Falsy \<Rightarrow> Inr False
      | Inr (Text m) \<Rightarrow> Inr (m \<noteq> [] \<and> str_includes m (js ''SAFETY''))
      | Inr (NonString None) \<Rightarrow> Inl (TypeError (NotAFunction (js ''includes'')))
      | Inr (NonString (Some b)) \<Rightarrow> Inr b)"

text \<open>The body of the \<^verbatim>\<open>try\<close> block up to the assignment of \<^verbatim>\<open>imageUrl\<close>.\<close>

definition request_image :: "env \<Rightarrow> app_state \<Rightarrow> effect list \<times> (thrown + js_string)" where
  "request_image e s =
     (if mode s = TEXT_TO_IMAGE then generateImageFromText e (prompt s) (aspectRatio s)
      else (case uploadedImage s of
              Some u \<Rightarrow>
                (if mode s = IMAGE_TO_IMAGE
                 then generateImageFromImage e u (prompt s) (aspectRatio s)
                 else ([], Inr []))
            | None \<Rightarrow> ([], Inr [])))"

definition handleGenerate :: "env \<Rightarrow> app_state \<Rightarrow> effect list \<times> app_state" where
  "handleGenerate e s =
     (if trim (prompt s) = [] then ([], s\<lparr>error := Some msg_prompt_required\<rparr>)
      else if mode s = IMAGE_TO_IMAGE \<and> uploadedImage s = None
        then ([], s\<lparr>error := Some msg_image_required\<rparr>)
      else
        (let s1 = s\<lparr>loading := \<lparr>isLoading = True, message = msg_creating\<rparr>, error := None\<rparr>
         in case request_image e s of
              (effects, Inr imageUrl) \<Rightarrow>
                (let newImage = \<lparr>img_id = randomUUID e, img_url = imageUrl,
                                  img_prompt = prompt s, img_aspectRatio = aspectRatio s,
                                  img_timestamp = now e\<rparr>
                 in (effects,
                     s1\<lparr>generatedImages := newImage # generatedImages s1,
                        loading := \<lparr>isLoading = False, message = []\<rparr>\<rparr>))
            | (effects, Inl err) \<Rightarrow>
                (case mentions_safety e err of
                   Inr safety \<Rightarrow>
                     (effects @ [ConsoleError None err],
                      s1\<lparr>error := Some (if safety then msg_safety_blocked
                                          else msg_generic_failure),
                         loading := \<lparr>isLoading = False, message = []\<rparr>\<rparr>)
                 | Inl t \<Rightarrow>
                     (effects @ [ConsoleError None err, UnhandledRejection t],
                      s1\<lparr>loading := \<lparr>isLoading = False, message = []\<rparr>\<rparr>))))"

section \<open>Notions used to state the properties\<close>

text \<open>The requests a list of effects passes to the remote capability, in order.\<close>

fun remote_calls :: "effect list \<Rightarrow> Request list" where
  "remote_calls [] = []"
| "remote_calls (GenerateContent r # es) = r # remote_calls es"
| "remote_calls (_ # es) = remote_calls es"

text \<open>
  The specification's wording for the bytes of the inline-data part: the string with
  everything up to and including its first comma removed.
\<close>

definition strip_data_url_prefix :: "js_string \<Rightarrow> js_string" where
  "strip_data_url_prefix s = drop 1 (dropWhile (\<lambda>c. c \<noteq> 0x2C) s)"

text \<open>The two guards at the head of \<^verbatim>\<open>handleGenerate\<close>.\<close>

definition rejected :: "app_state \<Rightarrow> bool" where
  "rejected s \<longleftrightarrow>
     trim (prompt s) = [] \<or> (mode s = IMAGE_TO_IMAGE \<and> uploadedImage s = None)"

subsection \<open>Concrete inputs\<close>

text \<open>
  A reply carrying one PNG, a platform whose remote capability sends that reply, platforms
  whose remote capability rejects with a given value, rejects with a message naming
  \<^verbatim>\<open>SAFETY\<close>, replies without candidates and replies with a candidate without content,
  an uploaded image, the component's state with the prompt \<^verbatim>\<open>a red cube\<close> typed in, and
  the request that state submits.
\<close>

definition png_reply :: Response where
  "png_reply = \<lparr>candidates = Some [\<lparr>content = Some \<lparr>parts = Some
     [\<lparr>inlineData = Some \<lparr>blob_mimeType = Some (js ''image/png''),
                          blob_data = Some (js ''AAAA'')\<rparr>,
       part_text = None\<rparr>]\<rparr>\<rparr>]\<rparr>"

definition replying_env :: env where
  "replying_env = \<lparr>generateContent = (\<lambda>_. Inr png_reply),
     typeErrorMessage = (\<lambda>_. js ''parts is not iterable''),
     randomUUID = js ''0b9e'', now = 1700000000000,
     readAsDataURL = (\<lambda>_. Inr (js ''data:image/png;base64,QUJD'')),
     createObjectURL = (\<lambda>_. js ''blob:2'')\<rparr>"

definition rejecting_env :: "thrown \<Rightarrow> env" where
  "rejecting_env t = replying_env\<lparr>generateContent := (\<lambda>_. Inl t)\<rparr>"

definition blocking_env :: env where
  "blocking_env = rejecting_env (Rejection (Text (js ''blocked: SAFETY'')))"

definition empty_reply_env :: env where
  "empty_reply_env = replying_env\<lparr>generateContent := (\<lambda>_. Inr \<lparr>candidates = Some []\<rparr>)\<rparr>"

definition bare_candidate_env :: env where
  "bare_candidate_env =
     replying_env\<lparr>generateContent := (\<lambda>_. Inr \<lparr>candidates = Some [\<lparr>content = None\<rparr>]\<rparr>),
                  typeErrorMessage := (\<lambda>_. js ''Cannot read properties of undefined'')\<rparr>"

definition photo :: UploadedImage where
  "photo = \<lparr>image_file = \<lparr>file_name = js ''a.png'', file_type = js ''image/png''\<rparr>,
     previewUrl = js ''blob:1'', base64 = js ''data:image/png;base64,QUJD'',
     mimeType = js ''image/png''\<rparr>"

definition idle_state :: app_state where
  "idle_state = \<lparr>mode = TEXT_TO_IMAGE, prompt = js ''a red cube'', aspectRatio = Ratio_1_1,
     loading = \<lparr>isLoading = False, message = []\<rparr>, uploadedImage = None,
     generatedImages = [], error = None, fileInput = None\<rparr>"

definition text_request :: Request where
  "text_request = \<lparr>model = MODEL_NAME,
     contents_parts = [\<lparr>inlineData = None, part_text = Some (js ''a red cube'')\<rparr>],
     config_imageConfig_aspectRatio = Ratio_1_1\<rparr>"

section \<open>Strings\<close>

lemma str_includes_sublist: "str_includes s t \<longleftrightarrow> sublist t s"
  by (induction s) (simp_all add: sublist_Cons_right)

lemma dropWhile_all: "(\<forall>x\<in>set (dropWhile P xs). P x) \<longleftrightarrow> (\<forall>x\<in>set xs. P x)"
  by (induction xs) auto

text \<open>The trimmed string is empty exactly for the empty and the whitespace-only strings.\<close>

lemma trim_empty_iff: "trim s = [] \<longleftrightarrow> (\<forall>c\<in>set s. isWhiteSpace c)"
  by (simp add: trim_def dropWhile_all)

text \<open>\<open>str_split\<close> never returns the empty list, so its \<open>hd\<close> and \<open>tl\<close> are defined.\<close>

lemma str_split_nonempty: "str_split sep s \<noteq> []"
  by (induction s) (simp_all add: Let_def)

lemma hd_str_split: "hd (str_split sep s) = takeWhile (\<lambda>c. c \<noteq> sep) s"
  by (induction s) (simp_all add: Let_def)

lemma tl_str_split:
  "tl (str_split sep s) =
     (if sep \<in> set s then str_split sep (drop 1 (dropWhile (\<lambda>c. c \<noteq> sep) s)) else [])"
  by (induction s) (auto simp: Let_def)

lemma array_index_1: "array_index xs (Suc 0) = (case tl xs of [] \<Rightarrow> None | y # _ \<Rightarrow> Some y)"
  by (cases xs; cases "tl xs") (auto simp: array_index_def)

text \<open>
  \<^verbatim>\<open>s.split(sep)[1]\<close> is the piece between the first separator and the next one, and
  \<^verbatim>\<open>undefined\<close> when the string has no separator.
\<close>

lemma str_split_second:
  "array_index (str_split sep s) (Suc 0) =
     (if sep \<in> set s
      then Some (takeWhile (\<lambda>c. c \<noteq> sep) (drop 1 (dropWhile (\<lambda>c. c \<noteq> sep) s)))
      else None)"
proof (cases "sep \<in> set s")
  case True
  let ?r = "drop 1 (dropWhile (\<lambda>c. c \<noteq> sep) s)"
  from True have "tl (str_split sep s) = str_split sep ?r" by (simp add: tl_str_split)
  moreover obtain y ys where "str_split sep ?r = y # ys"
    using str_split_nonempty [of sep ?r] by (cases "str_split sep ?r") auto
  moreover from this have "y = takeWhile (\<lambda>c. c \<noteq> sep) ?r"
    using hd_str_split [of sep ?r] by simp
  ultimately show ?thesis using True by (simp add: array_index_1)
next
  case False
  then show ?thesis by (simp add: array_index_1 tl_str_split)
qed

lemma dropWhile_to_separator:
  "sep \<notin> set h \<Longrightarrow> dropWhile (\<lambda>c. c \<noteq> sep) (h @ sep # p) = sep # p"
  by (induction h) auto

lemma trim_red_cube: "trim (js ''a red cube'') \<noteq> []"
  by (simp add: trim_def js_def isWhiteSpace_def)

lemma safety_in_blocked: "sublist (js ''SAFETY'') (js ''blocked: SAFETY'')"
  by (simp add: str_includes_sublist [symmetric] js_def)

section \<open>The response extractor\<close>

lemma scan_parts_none:
  "\<forall>p\<in>set ps. inlineData p = None \<Longrightarrow>
   scan_parts ps = Inl (Error (js ''No image data found in the response.''))"
  by (induction ps) simp_all

lemma scan_parts_first:
  "\<forall>q\<in>set pre. inlineData q = None \<Longrightarrow> inlineData p = Some b \<Longrightarrow>
   scan_parts (pre @ p # post) = Inr (js ''data:image/png;base64,'' @ interpolate (blob_data b))"
  by (induction pre) simp_all

text \<open>
  C1, as stated, at the reply \<^verbatim>\<open>{candidates: [{}]}\<close>: the first candidate has no content,
  the read of \<^verbatim>\<open>content.parts\<close> throws a type error, and the extractor neither fails
  with one of its two errors nor returns a string.
\<close>

theorem extractImageFromResponse_counterexample:
  "extractImageFromResponse \<lparr>candidates = Some [\<lparr>content = None\<rparr>]\<rparr>
     = Inl (TypeError (ReadPropertyOfUndefined (js ''parts'')))
   \<and> extractImageFromResponse \<lparr>candidates = Some [\<lparr>content = None\<rparr>]\<rparr>
     \<noteq> Inl (Error (js ''No candidates returned from Gemini.''))
   \<and> extractImageFromResponse \<lparr>candidates = Some [\<lparr>content = None\<rparr>]\<rparr>
     \<noteq> Inl (Error (js ''No image data found in the response.''))"
  by (simp add: extractImageFromResponse_def)

text \<open>
  C1, amended: for every reply whose first candidate, if there is one, carries a content
  with a parts list, the extractor fails with the no-candidates error when the reply has
  no candidates field or an empty candidate list, fails with the no-image error when no
  part of the first candidate carries inline data, and otherwise returns
  \<^verbatim>\<open>data:image/png;base64,\<close> followed by the data of the first part, in order, that
  carries inline data (the text \<^verbatim>\<open>undefined\<close> when that inline data has no data field).
\<close>

theorem extractImageFromResponse_outcomes:
  "(candidates r = None \<or> candidates r = Some [] \<longrightarrow>
      extractImageFromResponse r = Inl (Error (js ''No candidates returned from Gemini.'')))
   \<and> (candidates r = Some (c # cs) \<and> content c = Some ct \<and> parts ct = Some ps \<and>
        (\<forall>p\<in>set ps. inlineData p = None) \<longrightarrow>
      extractImageFromResponse r = Inl (Error (js ''No image data found in the response.'')))
   \<and> (candidates r = Some (c # cs) \<and> content c = Some ct \<and>
        parts ct = Some (pre @ p # post) \<and>
        (\<forall>q\<in>set pre. inlineData q = None) \<and> inlineData p = Some b \<longrightarrow>
      extractImageFromResponse r =
        Inr (js ''data:image/png;base64,'' @
             (case blob_data b of Some d \<Rightarrow> d | None \<Rightarrow> js ''undefined'')))"
  by (auto simp: extractImageFromResponse_def scan_parts_none scan_parts_first interpolate_def
           split: option.splits)

text \<open>
  The three cases on the replies \<^verbatim>\<open>{candidates: []}\<close>, a candidate with one text part,
  and \<^verbatim>\<open>{candidates: [{content: {parts: [{inlineData: {data: "AAAA"}}]}}]}\<close>.
\<close>

theorem extractImageFromResponse_outcomes_witness:
  "extractImageFromResponse \<lparr>candidates = Some []\<rparr>
     = Inl (Error (js ''No candidates returned from Gemini.''))
   \<and> extractImageFromResponse \<lparr>candidates = Some [\<lparr>content = Some \<lparr>parts = Some
        [\<lparr>inlineData = None, part_text = Some (js ''no image'')\<rparr>]\<rparr>\<rparr>]\<rparr>
     = Inl (Error (js ''No image data found in the response.''))
   \<and> extractImageFromResponse png_reply = Inr (js ''data:image/png;base64,AAAA'')"
proof -
  let ?t = "\<lparr>inlineData = None, part_text = Some (js ''no image'')\<rparr>"
  let ?b = "\<lparr>blob_mimeType = Some (js ''image/png''), blob_data = Some (js ''AAAA'')\<rparr>"
  let ?p = "\<lparr>inlineData = Some ?b, part_text = None\<rparr>"
  have "extractImageFromResponse \<lparr>candidates = Some []\<rparr>
     = Inl (Error (js ''No candidates returned from Gemini.''))"
    using extractImageFromResponse_outcomes [of "\<lparr>candidates = Some []\<rparr>"] by simp
  moreover have
    "extractImageFromResponse \<lparr>candidates = Some [\<lparr>content = Some \<lparr>parts = Some [?t]\<rparr>\<rparr>]\<rparr>
     = Inl (Error (js ''No image data found in the response.''))"
    using extractImageFromResponse_outcomes
      [of "\<lparr>candidates = Some [\<lparr>content = Some \<lparr>parts = Some [?t]\<rparr>\<rparr>]\<rparr>"
          "\<lparr>content = Some \<lparr>parts = Some [?t]\<rparr>\<rparr>" "[]" "\<lparr>parts = Some [?t]\<rparr>" "[?t]"]
    by simp
  moreover have "extractImageFromResponse png_reply = Inr (js ''data:image/png;base64,AAAA'')"
    using extractImageFromResponse_outcomes
      [of png_reply "\<lparr>content = Some \<lparr>parts = Some [?p]\<rparr>\<rparr>" "[]" "\<lparr>parts = Some [?p]\<rparr>"
          _ "[]" ?p "[]" ?b]
    by (simp add: png_reply_def js_def)
  ultimately show ?thesis by simp
qed

text \<open>
  C9: when the candidate list is not empty and its first candidate lacks a content, or
  the content lacks a parts list, extraction fails with a type error of the runtime, and
  not with the no-image error.
\<close>

theorem extractImageFromResponse_type_error:
  assumes "candidates r = Some (c # cs)"
    and "content c = None \<or> (\<exists>ct. content c = Some ct \<and> parts ct = None)"
  shows "(\<exists>d. extractImageFromResponse r = Inl (TypeError d))
         \<and> extractImageFromResponse r
             \<noteq> Inl (Error (js ''No image data found in the response.''))"
  using assms by (auto simp: extractImageFromResponse_def)

text \<open>A candidate without content, and a candidate whose content has no parts.\<close>

theorem extractImageFromResponse_type_error_witness:
  "(\<exists>d. extractImageFromResponse \<lparr>candidates = Some [\<lparr>content = None\<rparr>]\<rparr>
          = Inl (TypeError d))
   \<and> (\<exists>d. extractImageFromResponse \<lparr>candidates = Some [\<lparr>content = Some \<lparr>parts = None\<rparr>\<rparr>]\<rparr>
          = Inl (TypeError d))
   \<and> extractImageFromResponse \<lparr>candidates = Some [\<lparr>content = Some \<lparr>parts = None\<rparr>\<rparr>]\<rparr>
       \<noteq> Inl (Error (js ''No image data found in the response.''))"
  using extractImageFromResponse_type_error
    [of "\<lparr>candidates = Some [\<lparr>content = Some \<lparr>parts = None\<rparr>\<rparr>]\<rparr>"
        "\<lparr>content = Some \<lparr>parts = None\<rparr>\<rparr>" "[]"]
    extractImageFromResponse_type_error
    [of "\<lparr>candidates = Some [\<lparr>content = None\<rparr>]\<rparr>" "\<lparr>content = None\<rparr>" "[]"]
  by simp

section \<open>The request builder\<close>

lemma remote_calls_append: "remote_calls (xs @ ys) = remote_calls xs @ remote_calls ys"
  by (induction xs rule: remote_calls.induct) simp_all

lemma generateImageFromText_calls:
  "remote_calls (fst (generateImageFromText e p r)) =
     [\<lparr>model = MODEL_NAME, contents_parts = [\<lparr>inlineData = None, part_text = Some p\<rparr>],
       config_imageConfig_aspectRatio = r\<rparr>]"
  by (simp add: generateImageFromText_def Let_def split: sum.splits)

lemma generateImageFromText_outcome:
  "snd (generateImageFromText e p r) =
     generate_and_extract e \<lparr>model = MODEL_NAME,
       contents_parts = [\<lparr>inlineData = None, part_text = Some p\<rparr>],
       config_imageConfig_aspectRatio = r\<rparr>"
  by (simp add: generateImageFromText_def Let_def split: sum.splits)

lemma generateImageFromImage_calls:
  "remote_calls (fst (generateImageFromImage e u p r)) =
     [\<lparr>model = MODEL_NAME,
       contents_parts =
         [\<lparr>inlineData = Some \<lparr>blob_mimeType = Some (mimeType u),
                              blob_data = array_index (str_split 0x2C (base64 u)) 1\<rparr>,
           part_text = None\<rparr>,
          \<lparr>inlineData = None, part_text = Some p\<rparr>],
       config_imageConfig_aspectRatio = r\<rparr>]"
  by (simp add: generateImageFromImage_def Let_def split: sum.splits)

lemma generateImageFromImage_outcome:
  "snd (generateImageFromImage e u p r) =
     generate_and_extract e \<lparr>model = MODEL_NAME,
       contents_parts =
         [\<lparr>inlineData = Some \<lparr>blob_mimeType = Some (mimeType u),
                              blob_data = array_index (str_split 0x2C (base64 u)) 1\<rparr>,
           part_text = None\<rparr>,
          \<lparr>inlineData = None, part_text = Some p\<rparr>],
       config_imageConfig_aspectRatio = r\<rparr>"
  by (simp add: generateImageFromImage_def Let_def split: sum.splits)

text \<open>
  C3: in text-to-image mode exactly one request goes to the remote capability; its parts
  are the single text part carrying the prompt, with no inline data, and its configuration
  carries the requested aspect ratio. This holds for every prompt, the non-empty ones
  among them. For the prompt \<^verbatim>\<open>a red cube\<close> and the ratio \<^verbatim>\<open>1:1\<close> the parts are
  \<^verbatim>\<open>[{text: "a red cube"}]\<close> and the configured ratio is \<^verbatim>\<open>1:1\<close>.
\<close>

theorem generateImageFromText_request:
  "remote_calls (fst (generateImageFromText e p r)) =
     [\<lparr>model = MODEL_NAME, contents_parts = [\<lparr>inlineData = None, part_text = Some p\<rparr>],
       config_imageConfig_aspectRatio = r\<rparr>]
   \<and> remote_calls (fst (generateImageFromText e (js ''a red cube'') Ratio_1_1)) =
     [\<lparr>model = MODEL_NAME,
       contents_parts = [\<lparr>inlineData = None, part_text = Some (js ''a red cube'')\<rparr>],
       config_imageConfig_aspectRatio = Ratio_1_1\<rparr>]
   \<and> aspectRatio_string Ratio_1_1 = js ''1:1''"
  by (simp add: generateImageFromText_def Let_def aspectRatio_string_def split: sum.splits)

text \<open>
  C2: in image-to-image mode, for an uploaded image whose base64 string is a data URL as
  the file reader returns it (a header, a comma and a payload, with no comma in the header
  and none in the payload), exactly one request goes to the remote capability; its parts
  are an inline-data part first and the text part carrying the prompt second; the bytes of
  the inline-data part are the base64 string with everything up to and including its
  first comma removed, which is the payload; and its mime type is the uploaded image's
  \<^verbatim>\<open>mimeType\<close>. This holds for every prompt, the non-empty ones among them.
\<close>

theorem generateImageFromImage_request:
  assumes "base64 u = header @ 0x2C # payload"
    and "0x2C \<notin> set header" and "0x2C \<notin> set payload"
  shows "remote_calls (fst (generateImageFromImage e u p r)) =
     [\<lparr>model = MODEL_NAME,
       contents_parts =
         [\<lparr>inlineData = Some \<lparr>blob_mimeType = Some (mimeType u),
                              blob_data = Some (strip_data_url_prefix (base64 u))\<rparr>,
           part_text = None\<rparr>,
          \<lparr>inlineData = None, part_text = Some p\<rparr>],
       config_imageConfig_aspectRatio = r\<rparr>]
   \<and> strip_data_url_prefix (base64 u) = payload"
proof -
  have d: "dropWhile (\<lambda>c. c \<noteq> 0x2C) (base64 u) = 0x2C # payload"
    using assms(1,2) by (simp add: dropWhile_to_separator)
  then have s: "strip_data_url_prefix (base64 u) = payload"
    by (simp add: strip_data_url_prefix_def)
  have t: "takeWhile (\<lambda>c. c \<noteq> 0x2C) payload = payload"
    using assms(3) by (auto simp: takeWhile_eq_all_conv)
  have "array_index (str_split 0x2C (base64 u)) (Suc 0) = Some payload"
    using assms(1) d t by (simp add: str_split_second)
  with s show ?thesis by (simp add: generateImageFromImage_calls)
qed

text \<open>
  The uploaded image \<open>photo\<close>, whose base64 string is \<^verbatim>\<open>data:image/png;base64,QUJD\<close>.
\<close>

theorem generateImageFromImage_request_witness:
  "base64 photo = js ''data:image/png;base64'' @ 0x2C # js ''QUJD''
   \<and> 0x2C \<notin> set (js ''data:image/png;base64'') \<and> 0x2C \<notin> set (js ''QUJD'')
   \<and> strip_data_url_prefix (base64 photo) = js ''QUJD''
   \<and> map (map_option blob_data \<circ> inlineData)
        (contents_parts (hd (remote_calls (fst
           (generateImageFromImage replying_env photo (js ''sepia'') Ratio_16_9)))))
       = [Some (Some (js ''QUJD'')), None]"
proof -
  have b: "base64 photo = js ''data:image/png;base64'' @ 0x2C # js ''QUJD''"
    by (simp add: photo_def js_def)
  have h: "0x2C \<notin> set (js ''data:image/png;base64'')" by (simp add: js_def)
  have n: "0x2C \<notin> set (js ''QUJD'')" by (simp add: js_def)
  from generateImageFromImage_request
         [OF b h n, of replying_env "js ''sepia''" Ratio_16_9] b h n
  show ?thesis by simp
qed

section \<open>The generate handler\<close>

text \<open>
  A submission that passes the two guards sends exactly one request, and the outcome of
  the awaited call is the outcome of that request.
\<close>

lemma request_image_remote:
  assumes "\<not> rejected s"
  shows "\<exists>req. remote_calls (fst (request_image e s)) = [req]
               \<and> snd (request_image e s) = generate_and_extract e req"
proof (cases "mode s")
  case TEXT_TO_IMAGE
  then show ?thesis
    by (simp add: request_image_def generateImageFromText_calls generateImageFromText_outcome)
next
  case IMAGE_TO_IMAGE
  with assms obtain u where "uploadedImage s = Some u" by (auto simp: rejected_def)
  with IMAGE_TO_IMAGE show ?thesis
    by (simp add: request_image_def generateImageFromImage_calls generateImageFromImage_outcome)
qed

lemma handleGenerate_rejected:
  "rejected s \<Longrightarrow> handleGenerate e s =
     ([], s\<lparr>error := Some (if trim (prompt s) = [] then msg_prompt_required
                             else msg_image_required)\<rparr>)"
  by (auto simp: handleGenerate_def rejected_def)

lemma handleGenerate_Inr:
  assumes "\<not> rejected s" and "snd (request_image e s) = Inr url"
  shows "handleGenerate e s =
     (fst (request_image e s),
      s\<lparr>loading := \<lparr>isLoading = False, message = []\<rparr>, error := None,
        generatedImages := \<lparr>img_id = randomUUID e, img_url = url, img_prompt = prompt s,
                             img_aspectRatio = aspectRatio s, img_timestamp = now e\<rparr>
                           # generatedImages s\<rparr>)"
  using assms by (cases "request_image e s") (auto simp: handleGenerate_def rejected_def Let_def)

lemma handleGenerate_Inl:
  assumes "\<not> rejected s" and "snd (request_image e s) = Inl err"
  shows "handleGenerate e s =
     (fst (request_image e s) @ ConsoleError None err #
        (case mentions_safety e err of Inl t \<Rightarrow> [UnhandledRejection t] | Inr _ \<Rightarrow> []),
      s\<lparr>loading := \<lparr>isLoading = False, message = []\<rparr>,
        error := (case mentions_safety e err of
                    Inl _ \<Rightarrow> None
                  | Inr safety \<Rightarrow> Some (if safety then msg_safety_blocked
                                         else msg_generic_failure))\<rparr>)"
  using assms
  by (cases "request_image e s")
     (auto simp: handleGenerate_def rejected_def Let_def split: sum.splits)

lemma handleGenerate_Inl_calls:
  assumes "\<not> rejected s" and "snd (request_image e s) = Inl err"
  shows "remote_calls (fst (handleGenerate e s)) = remote_calls (fst (request_image e s))"
  by (simp add: handleGenerate_Inl [OF assms] remote_calls_append split: sum.splits)

lemma handleGenerate_sent:
  assumes "remote_calls (fst (handleGenerate e s)) = [req]"
  shows "\<not> rejected s \<and> snd (request_image e s) = generate_and_extract e req"
proof -
  have nr: "\<not> rejected s"
    using assms by (auto simp: handleGenerate_rejected)
  then obtain req' where r: "remote_calls (fst (request_image e s)) = [req']"
    "snd (request_image e s) = generate_and_extract e req'"
    using request_image_remote by blast
  have "remote_calls (fst (handleGenerate e s)) = [req']"
  proof (cases "snd (request_image e s)")
    case (Inl err)
    from handleGenerate_Inl_calls [OF nr Inl] r(1) show ?thesis by simp
  next
    case (Inr url)
    from handleGenerate_Inr [OF nr Inr] r(1) show ?thesis by simp
  qed
  with assms r nr show ?thesis by simp
qed

text \<open>The condition of the \<^verbatim>\<open>catch\<close> block on each kind of thrown value.\<close>

lemma safety_nonempty: "sublist (js ''SAFETY'') m \<Longrightarrow> m \<noteq> []"
  by (auto simp: js_def)

lemma mentions_safety_Error:
  "mentions_safety e (Error m) = Inr (sublist (js ''SAFETY'') m)"
  using safety_nonempty [of m]
  by (auto simp: mentions_safety_def read_message_def str_includes_sublist)

lemma mentions_safety_TypeError:
  "mentions_safety e (TypeError d) = Inr (sublist (js ''SAFETY'') (typeErrorMessage e d))"
  using safety_nonempty [of "typeErrorMessage e d"]
  by (auto simp: mentions_safety_def read_message_def str_includes_sublist)

lemma mentions_safety_Text:
  "mentions_safety e (Rejection (Text m)) = Inr (sublist (js ''SAFETY'') m)"
  using safety_nonempty [of m]
  by (auto simp: mentions_safety_def read_message_def str_includes_sublist)

lemma mentions_safety_Falsy: "mentions_safety e (Rejection Falsy) = Inr False"
  by (simp add: mentions_safety_def read_message_def)

lemma mentions_safety_Nullish:
  "mentions_safety e Nullish = Inl (TypeError (ReadPropertyOfUndefined (js ''message'')))"
  by (simp add: mentions_safety_def read_message_def)

lemma mentions_safety_NonString:
  "mentions_safety e (Rejection (NonString None))
     = Inl (TypeError (NotAFunction (js ''includes'')))"
  by (simp add: mentions_safety_def read_message_def)

lemma idle_not_rejected: "\<not> rejected idle_state"
  by (simp add: rejected_def idle_state_def trim_red_cube)

lemma idle_calls: "remote_calls (fst (handleGenerate e idle_state)) = [text_request]"
proof -
  have "request_image e idle_state = generateImageFromText e (js ''a red cube'') Ratio_1_1"
    by (simp add: request_image_def idle_state_def)
  then have c: "remote_calls (fst (request_image e idle_state)) = [text_request]"
    by (simp add: generateImageFromText_calls text_request_def)
  show ?thesis
  proof (cases "snd (request_image e idle_state)")
    case (Inl err)
    from handleGenerate_Inl_calls [OF idle_not_rejected Inl] c show ?thesis by simp
  next
    case (Inr url)
    from handleGenerate_Inr [OF idle_not_rejected Inr] c show ?thesis by simp
  qed
qed


lemma rejecting_outcome: "generate_and_extract (rejecting_env t) req = Inl t"
  by (simp add: generate_and_extract_def rejecting_env_def replying_env_def)

lemma blocking_outcome:
  "generate_and_extract blocking_env req = Inl (Rejection (Text (js ''blocked: SAFETY'')))"
  by (simp add: blocking_env_def rejecting_outcome)

lemma empty_reply_outcome:
  "generate_and_extract empty_reply_env req
     = Inl (Error (js ''No candidates returned from Gemini.''))"
  by (simp add: generate_and_extract_def empty_reply_env_def replying_env_def
        extractImageFromResponse_def)

lemma bare_candidate_outcome:
  "generate_and_extract bare_candidate_env req
     = Inl (TypeError (ReadPropertyOfUndefined (js ''parts'')))"
  by (simp add: generate_and_extract_def bare_candidate_env_def replying_env_def
        extractImageFromResponse_def)

lemma no_safety_in_no_candidates:
  "\<not> sublist (js ''SAFETY'') (js ''No candidates returned from Gemini.'')"
  by (simp add: str_includes_sublist [symmetric] js_def)

lemma no_safety_in_cannot_read:
  "\<not> sublist (js ''SAFETY'') (js ''Cannot read properties of undefined'')"
  by (simp add: str_includes_sublist [symmetric] js_def)

text \<open>
  C4: when the trimmed prompt is empty, or the mode is image-to-image and no uploaded
  image is present, the handler has no effect outside the state, so it makes no remote
  call; it sets the error to the message asking for a prompt, or else to the one asking
  for an image; and it leaves the loading state as it was, so a loading flag that was
  false is false afterwards.
\<close>

theorem handleGenerate_validation:
  assumes "trim (prompt s) = [] \<or> (mode s = IMAGE_TO_IMAGE \<and> uploadedImage s = None)"
  shows "fst (handleGenerate e s) = []
       \<and> remote_calls (fst (handleGenerate e s)) = []
       \<and> error (snd (handleGenerate e s)) =
           Some (if trim (prompt s) = [] then msg_prompt_required else msg_image_required)
       \<and> loading (snd (handleGenerate e s)) = loading s
       \<and> (\<not> isLoading (loading s) \<longrightarrow> \<not> isLoading (loading (snd (handleGenerate e s))))"
  using assms by (simp add: handleGenerate_rejected rejected_def)

text \<open>A prompt of two spaces, and image-to-image mode with nothing uploaded.\<close>

theorem handleGenerate_validation_witness:
  "trim (prompt (idle_state\<lparr>prompt := js ''  ''\<rparr>)) = []
   \<and> fst (handleGenerate replying_env (idle_state\<lparr>prompt := js ''  ''\<rparr>)) = []
   \<and> error (snd (handleGenerate replying_env (idle_state\<lparr>prompt := js ''  ''\<rparr>)))
       = Some msg_prompt_required
   \<and> \<not> isLoading (loading (snd (handleGenerate replying_env (idle_state\<lparr>prompt := js ''  ''\<rparr>))))
   \<and> error (snd (handleGenerate replying_env (idle_state\<lparr>mode := IMAGE_TO_IMAGE\<rparr>)))
       = Some msg_image_required
   \<and> fst (handleGenerate replying_env (idle_state\<lparr>mode := IMAGE_TO_IMAGE\<rparr>)) = []"
proof -
  have t: "trim (prompt (idle_state\<lparr>prompt := js ''  ''\<rparr>)) = []"
    by (simp add: trim_def js_def isWhiteSpace_def)
  have l: "\<not> isLoading (loading (idle_state\<lparr>prompt := js ''  ''\<rparr>))"
    by (simp add: idle_state_def)
  have m: "mode (idle_state\<lparr>mode := IMAGE_TO_IMAGE\<rparr>) = IMAGE_TO_IMAGE
           \<and> uploadedImage (idle_state\<lparr>mode := IMAGE_TO_IMAGE\<rparr>) = None"
    by (simp add: idle_state_def)
  have t': "trim (prompt (idle_state\<lparr>mode := IMAGE_TO_IMAGE\<rparr>)) \<noteq> []"
    by (simp add: idle_state_def trim_red_cube)
  from handleGenerate_validation
         [where e = replying_env and s = "idle_state\<lparr>prompt := js ''  ''\<rparr>"]
       handleGenerate_validation
         [where e = replying_env and s = "idle_state\<lparr>mode := IMAGE_TO_IMAGE\<rparr>"]
       t l m t'
  show ?thesis by simp
qed



text \<open>
  C7, as stated, at a remote call that rejects with \<^verbatim>\<open>undefined\<close>: the request is sent
  and throws, the read of \<^verbatim>\<open>err.message\<close> in the \<^verbatim>\<open>catch\<close> block throws a type error,
  no error message is set, neither the policy-rejection one nor the generic one, and the
  handler's promise is rejected.
\<close>

theorem handleGenerate_failure_message_counterexample:
  "remote_calls (fst (handleGenerate (rejecting_env Nullish) idle_state)) = [text_request]
   \<and> generate_and_extract (rejecting_env Nullish) text_request = Inl Nullish
   \<and> error (snd (handleGenerate (rejecting_env Nullish) idle_state)) = None
   \<and> last (fst (handleGenerate (rejecting_env Nullish) idle_state))
       = UnhandledRejection (TypeError (ReadPropertyOfUndefined (js ''message'')))"
proof -
  have o: "snd (request_image (rejecting_env Nullish) idle_state) = Inl Nullish"
    using handleGenerate_sent [OF idle_calls, of "rejecting_env Nullish"]
    by (simp add: rejecting_outcome)
  have h: "handleGenerate (rejecting_env Nullish) idle_state =
     (fst (request_image (rejecting_env Nullish) idle_state) @
        [ConsoleError None Nullish,
         UnhandledRejection (TypeError (ReadPropertyOfUndefined (js ''message'')))],
      idle_state\<lparr>loading := \<lparr>isLoading = False, message = []\<rparr>, error := None\<rparr>)"
    by (simp add: handleGenerate_Inl [OF idle_not_rejected o] mentions_safety_Nullish)
  have "error (snd (handleGenerate (rejecting_env Nullish) idle_state)) = None"
    and "last (fst (handleGenerate (rejecting_env Nullish) idle_state))
       = UnhandledRejection (TypeError (ReadPropertyOfUndefined (js ''message'')))"
    unfolding h by simp_all
  with idle_calls [of "rejecting_env Nullish"] rejecting_outcome [of Nullish text_request]
  show ?thesis by simp
qed

text \<open>
  C7, amended: when the request the handler sent throws a value whose message can be read
  and is a string or absent (an \<^verbatim>\<open>Error\<close> of the extractor, a type error of the runtime,
  or a rejection of the remote capability whose \<^verbatim>\<open>message\<close> is a string or falsy), the
  error shown is the policy-rejection message exactly when the message text contains
  \<^verbatim>\<open>SAFETY\<close>, and the generic failure message otherwise. Whether the request succeeds or
  throws, and whatever it throws, the loading state afterwards is not loading, with an
  empty message.
\<close>

theorem handleGenerate_failure_message:
  assumes "remote_calls (fst (handleGenerate e s)) = [req]"
  shows "(generate_and_extract e req = Inl (Error m) \<longrightarrow>
            error (snd (handleGenerate e s)) =
              Some (if sublist (js ''SAFETY'') m
                    then msg_safety_blocked else msg_generic_failure))
       \<and> (generate_and_extract e req = Inl (TypeError d) \<longrightarrow>
            error (snd (handleGenerate e s)) =
              Some (if sublist (js ''SAFETY'') (typeErrorMessage e d)
                    then msg_safety_blocked else msg_generic_failure))
       \<and> (generate_and_extract e req = Inl (Rejection (Text m')) \<longrightarrow>
            error (snd (handleGenerate e s)) =
              Some (if sublist (js ''SAFETY'') m'
                    then msg_safety_blocked else msg_generic_failure))
       \<and> (generate_and_extract e req = Inl (Rejection Falsy) \<longrightarrow>
            error (snd (handleGenerate e s)) = Some msg_generic_failure)
       \<and> loading (snd (handleGenerate e s)) = \<lparr>isLoading = False, message = []\<rparr>"
proof -
  from handleGenerate_sent [OF assms]
  have nr: "\<not> rejected s" and o: "snd (request_image e s) = generate_and_extract e req"
    by simp_all
  show ?thesis
  proof (cases "generate_and_extract e req")
    case (Inl err)
    with o have "snd (request_image e s) = Inl err" by simp
    from handleGenerate_Inl [OF nr this] Inl show ?thesis
      by (auto simp: mentions_safety_Error mentions_safety_TypeError mentions_safety_Text
            mentions_safety_Falsy)
  next
    case (Inr url)
    with nr o show ?thesis by (simp add: handleGenerate_Inr)
  qed
qed

text \<open>
  A remote capability that rejects with the message \<^verbatim>\<open>blocked: SAFETY\<close>, one that
  replies without candidates, so that the extractor throws its \<^verbatim>\<open>Error\<close>, one that
  replies with a candidate without content, so that the runtime throws a type error, and
  one that rejects with an object without a message.
\<close>

theorem handleGenerate_failure_message_witness:
  "remote_calls (fst (handleGenerate blocking_env idle_state)) = [text_request]
   \<and> generate_and_extract blocking_env text_request
       = Inl (Rejection (Text (js ''blocked: SAFETY'')))
   \<and> error (snd (handleGenerate blocking_env idle_state)) = Some msg_safety_blocked
   \<and> loading (snd (handleGenerate blocking_env idle_state))
       = \<lparr>isLoading = False, message = []\<rparr>
   \<and> generate_and_extract empty_reply_env text_request
       = Inl (Error (js ''No candidates returned from Gemini.''))
   \<and> error (snd (handleGenerate empty_reply_env idle_state)) = Some msg_generic_failure
   \<and> generate_and_extract bare_candidate_env text_request
       = Inl (TypeError (ReadPropertyOfUndefined (js ''parts'')))
   \<and> error (snd (handleGenerate bare_candidate_env idle_state)) = Some msg_generic_failure
   \<and> generate_and_extract (rejecting_env (Rejection Falsy)) text_request
       = Inl (Rejection Falsy)
   \<and> error (snd (handleGenerate (rejecting_env (Rejection Falsy)) idle_state))
       = Some msg_generic_failure"
proof -
  have t: "typeErrorMessage bare_candidate_env (ReadPropertyOfUndefined (js ''parts''))
             = js ''Cannot read properties of undefined''"
    by (simp add: bare_candidate_env_def)
  from handleGenerate_failure_message
         [OF idle_calls, where e = blocking_env and m' = "js ''blocked: SAFETY''"]
       handleGenerate_failure_message
         [OF idle_calls, where e = empty_reply_env
            and m = "js ''No candidates returned from Gemini.''"]
       handleGenerate_failure_message
         [OF idle_calls, where e = bare_candidate_env
            and d = "ReadPropertyOfUndefined (js ''parts'')"]
       handleGenerate_failure_message
         [OF idle_calls, where e = "rejecting_env (Rejection Falsy)"]
       idle_calls [of blocking_env] blocking_outcome [of text_request]
       empty_reply_outcome [of text_request] bare_candidate_outcome [of text_request]
       rejecting_outcome [of "Rejection Falsy" text_request]
       safety_in_blocked no_safety_in_no_candidates no_safety_in_cannot_read t
  show ?thesis by simp
qed

text \<open>
  C10: when a submission is rejected by a guard, or the request it sent throws, the state
  afterwards is the state before with only the error and the loading state replaced: the
  history, the prompt, the aspect ratio, the mode and the uploaded image are unchanged.
\<close>

theorem handleGenerate_failure_frame:
  assumes "trim (prompt s) = [] \<or> (mode s = IMAGE_TO_IMAGE \<and> uploadedImage s = None)
           \<or> (\<exists>req err. remote_calls (fst (handleGenerate e s)) = [req]
                          \<and> generate_and_extract e req = Inl err)"
  shows "snd (handleGenerate e s) =
           s\<lparr>error := error (snd (handleGenerate e s)),
             loading := loading (snd (handleGenerate e s))\<rparr>
       \<and> generatedImages (snd (handleGenerate e s)) = generatedImages s
       \<and> prompt (snd (handleGenerate e s)) = prompt s
       \<and> aspectRatio (snd (handleGenerate e s)) = aspectRatio s
       \<and> mode (snd (handleGenerate e s)) = mode s
       \<and> uploadedImage (snd (handleGenerate e s)) = uploadedImage s"
proof (cases "rejected s")
  case True
  then show ?thesis by (simp add: handleGenerate_rejected)
next
  case False
  with assms obtain req err where "remote_calls (fst (handleGenerate e s)) = [req]"
    and "generate_and_extract e req = Inl err" by (auto simp: rejected_def)
  with handleGenerate_sent [of e s req] False show ?thesis
    by (simp add: handleGenerate_Inl)
qed

text \<open>A rejected remote call, and an empty prompt.\<close>

theorem handleGenerate_failure_frame_witness:
  "generatedImages (snd (handleGenerate blocking_env idle_state)) = generatedImages idle_state
   \<and> prompt (snd (handleGenerate blocking_env idle_state)) = prompt idle_state
   \<and> generatedImages (snd (handleGenerate replying_env (idle_state\<lparr>prompt := []\<rparr>))) = []
   \<and> (\<exists>req err. remote_calls (fst (handleGenerate blocking_env idle_state)) = [req]
                  \<and> generate_and_extract blocking_env req = Inl err)
   \<and> trim (prompt (idle_state\<lparr>prompt := []\<rparr>)) = []"
proof -
  have a: "\<exists>req err. remote_calls (fst (handleGenerate blocking_env idle_state)) = [req]
                  \<and> generate_and_extract blocking_env req = Inl err"
    using idle_calls [of blocking_env] blocking_outcome [of text_request] by blast
  have b: "trim (prompt (idle_state\<lparr>prompt := []\<rparr>)) = []"
    by (simp add: trim_def)
  from handleGenerate_failure_frame [where e = blocking_env and s = idle_state] a
       handleGenerate_failure_frame
         [where e = replying_env and s = "idle_state\<lparr>prompt := []\<rparr>"] b
  show ?thesis by (simp add: idle_state_def)
qed

section \<open>Mode switch, prompt edits and uploads\<close>

text \<open>
  C8: a mode switch sets the mode and clears the error, and leaves the prompt, the aspect
  ratio, the uploaded image and the history as they were; an edit of the textarea replaces
  the prompt and nothing else, so the error stays as it was.
\<close>

theorem switchMode_frame:
  "error (switchMode m s) = None \<and> mode (switchMode m s) = m
   \<and> prompt (switchMode m s) = prompt s
   \<and> aspectRatio (switchMode m s) = aspectRatio s
   \<and> uploadedImage (switchMode m s) = uploadedImage s
   \<and> generatedImages (switchMode m s) = generatedImages s
   \<and> textarea_onChange v s = s\<lparr>prompt := v\<rparr>
   \<and> error (textarea_onChange v s) = error s"
  by (simp add: switchMode_def textarea_onChange_def)

text \<open>
  Removing an uploaded image releases its preview URL, empties the slot, and empties the
  file input when one is mounted. \<^verbatim>\<open>handleFileChange\<close> releases nothing.
\<close>

lemma removeUploadedImage_releases:
  "uploadedImage s = Some u \<Longrightarrow>
     fst (removeUploadedImage s) = [RevokeObjectURL (previewUrl u)]"
  by (simp add: removeUploadedImage_def)

lemma removeUploadedImage_clears:
  "uploadedImage (snd (removeUploadedImage s)) = None
   \<and> (fileInput s \<noteq> None \<longrightarrow> fileInput (snd (removeUploadedImage s)) = Some [])"
  by (auto simp: removeUploadedImage_def)

lemma handleFileChange_never_releases:
  "RevokeObjectURL url \<notin> set (fst (handleFileChange e files s))"
  by (auto simp: handleFileChange_def split: option.splits list.splits sum.splits)

text \<open>
  C6, on a state that holds the uploaded image \<open>photo\<close> with preview URL \<^verbatim>\<open>blob:1\<close>:
  selecting the file \<^verbatim>\<open>b.png\<close> creates its object URL and assigns the new image with
  preview URL \<^verbatim>\<open>blob:2\<close>, and \<^verbatim>\<open>blob:1\<close> is not released; removing the image from the
  same state does release \<^verbatim>\<open>blob:1\<close>.
\<close>

theorem handleFileChange_replace_leaks:
  "fst (handleFileChange replying_env
          (Some [\<lparr>file_name = js ''b.png'', file_type = js ''image/png''\<rparr>])
          (idle_state\<lparr>mode := IMAGE_TO_IMAGE, uploadedImage := Some photo\<rparr>))
     = [CreateObjectURL \<lparr>file_name = js ''b.png'', file_type = js ''image/png''\<rparr>]
   \<and> map_option previewUrl (uploadedImage (snd
        (handleFileChange replying_env
           (Some [\<lparr>file_name = js ''b.png'', file_type = js ''image/png''\<rparr>])
           (idle_state\<lparr>mode := IMAGE_TO_IMAGE, uploadedImage := Some photo\<rparr>))))
     = Some (js ''blob:2'')
   \<and> fst (removeUploadedImage (idle_state\<lparr>mode := IMAGE_TO_IMAGE, uploadedImage := Some photo\<rparr>))
     = [RevokeObjectURL (js ''blob:1'')]"
  by (simp add: handleFileChange_def removeUploadedImage_def fileToBase64_def replying_env_def
        idle_state_def photo_def)

end
